theory Spec2Isabelle
  imports Main "HOL-Library.Sublist"
begin

section \<open>Data model of the web server (bin/webdocks/chatgpt, second listing)\<close>

text \<open>
  Go strings are byte sequences; \<^typ>\<open>string\<close> is a list of 8-bit characters, so
  \<^term>\<open>length\<close> is Go's \<open>len\<close> and \<^term>\<open>take\<close>/\<^term>\<open>drop\<close> are Go's slices
  \<open>s[:n]\<close> and \<open>s[n:]\<close> whenever \<open>n \<le> len(s)\<close>.
\<close>

record User =
  User_ID :: int
  Login :: string
  Password :: string
  Token :: string
  Role :: string

record Room =
  Room_ID :: string
  Room_Name :: string

record Client =
  Client_ID :: string
  Client_Name :: string

text \<open>The package-level variables \<open>users\<close>, \<open>rooms\<close> and \<open>clients\<close>.\<close>

record globals =
  users :: "User list"
  rooms :: "Room list"
  clients :: "Client list"

definition init_globals :: globals where
  "init_globals =
     \<lparr>users = [],
      rooms = [\<lparr>Room_ID = ''1'', Room_Name = ''room1''\<rparr>,
               \<lparr>Room_ID = ''2'', Room_Name = ''room2''\<rparr>],
      clients = [\<lparr>Client_ID = ''1'', Client_Name = ''User1''\<rparr>,
                 \<lparr>Client_ID = ''2'', Client_Name = ''User2''\<rparr>]\<rparr>"

subsection \<open>HTTP responses\<close>

text \<open>
  What \<open>c.JSON(status, value)\<close> writes: the status code and the value that is
  serialised. \<open>H k v\<close> is the one-entry object \<open>gin.H{k: v}\<close>.
\<close>

datatype json =
    H string string
  | JUser User
  | JRoom Room
  | JRooms "Room list"
  | JClients "Client list"

record response =
  status :: nat
  body :: json

definition StatusOK :: nat where "StatusOK = 200"
definition StatusBadRequest :: nat where "StatusBadRequest = 400"
definition StatusUnauthorized :: nat where "StatusUnauthorized = 401"
definition StatusNotFound :: nat where "StatusNotFound = 404"

definition JSON :: "nat \<Rightarrow> json \<Rightarrow> response" where
  "JSON st v = \<lparr>status = st, body = v\<rparr>"

section \<open>Request handlers\<close>

subsection \<open>handleSignup\<close>

text \<open>
  The argument \<open>bound\<close> is the outcome of \<open>c.BindJSON(&user)\<close>: \<open>None\<close> when it
  returns an error, \<open>Some user\<close> with the decoded struct otherwise. The decoder is
  outside the repository. It returns an error for a body that is not JSON and also
  for a well-formed one that does not fit the struct, for example a number where
  \<open>login\<close> wants a string.
\<close>

definition handleSignup :: "User option \<Rightarrow> globals \<Rightarrow> response \<times> globals" where
  "handleSignup bound g =
     (case bound of
        None \<Rightarrow> (JSON StatusBadRequest (H ''error'' ''Invalid input''), g)
      | Some user \<Rightarrow>
          (let user = user\<lparr>User_ID := int (length (users g)) + 1\<rparr>
           in (JSON StatusOK (JUser user), g\<lparr>users := users g @ [user]\<rparr>)))"

subsection \<open>getRoomsHandler\<close>

text \<open>The UTF-8 bytes of the Russian text "no room has been created" of the source.\<close>

definition no_rooms_message :: string where
  "no_rooms_message = map char_of
     [0xd0, 0x9d, 0xd0, 0xb8, 0x20, 0xd0, 0xbe, 0xd0, 0xb4, 0xd0, 0xbd, 0xd0, 0xbe,
      0xd0, 0xb9, 0x20, 0xd0, 0xba, 0xd0, 0xbe, 0xd0, 0xbc, 0xd0, 0xbd, 0xd0, 0xb0,
      0xd1, 0x82, 0xd1, 0x8b, 0x20, 0xd0, 0xbd, 0xd0, 0xb5, 0x20, 0xd1, 0x81, 0xd0,
      0xbe, 0xd0, 0xb7, 0xd0, 0xb4, 0xd0, 0xb0, 0xd0, 0xbd, 0xd0, 0xbe :: nat]"

definition getRoomsHandler :: "globals \<Rightarrow> response" where
  "getRoomsHandler g =
     (if length (rooms g) = 0 then JSON StatusOK (H ''message'' no_rooms_message)
      else JSON StatusOK (JRooms (rooms g)))"

text \<open>
  The responses that \<open>docTemplate\<close> (docs/docs.go) declares for
  \<open>GET /auth/ws/getRooms\<close>: status code and description.
\<close>

definition getRooms_documented_responses :: "(nat \<times> string) list" where
  "getRooms_documented_responses = [(200, ''OK''), (404, ''Not Found'')]"

subsection \<open>createRoomHandler\<close>

text \<open>\<open>bound\<close> is the outcome of \<open>c.BindJSON(&room)\<close>, as in \<open>handleSignup\<close>.\<close>

definition createRoomHandler :: "Room option \<Rightarrow> globals \<Rightarrow> response \<times> globals" where
  "createRoomHandler bound g =
     (case bound of
        None \<Rightarrow> (JSON StatusBadRequest (H ''error'' ''Invalid input''), g)
      | Some room \<Rightarrow> (JSON StatusOK (JRoom room), g\<lparr>rooms := rooms g @ [room]\<rparr>))"

subsection \<open>getClientsHandler\<close>

text \<open>
  The source reads the path parameter \<open>roomID\<close> and then answers with the package-level
  \<open>clients\<close>; its comment says that the fixed list of clients is returned.
\<close>

definition getClientsHandler :: "string \<Rightarrow> globals \<Rightarrow> response" where
  "getClientsHandler roomID g = JSON StatusOK (JClients (clients g))"

subsection \<open>The request context and authMiddleware\<close>

text \<open>
  The part of \<open>gin.Context\<close> that the handlers use: the request headers (\<open>GetHeader\<close>
  yields the empty string for an absent header), the path parameters, the key/value
  store of \<open>Set\<close>/\<open>Get\<close>, the responses written so far and the abort flag.
\<close>

record Context =
  Headers :: "string \<Rightarrow> string"
  Params :: "string \<Rightarrow> string"
  Keys :: "string \<rightharpoonup> string"
  Written :: "response list"
  Aborted :: bool

definition GetHeader :: "Context \<Rightarrow> string \<Rightarrow> string" where
  "GetHeader c k = Headers c k"

definition Param :: "Context \<Rightarrow> string \<Rightarrow> string" where
  "Param c k = Params c k"

definition ctx_JSON :: "nat \<Rightarrow> json \<Rightarrow> Context \<Rightarrow> Context" where
  "ctx_JSON st v c = c\<lparr>Written := Written c @ [JSON st v]\<rparr>"

definition ctx_Abort :: "Context \<Rightarrow> Context" where
  "ctx_Abort c = c\<lparr>Aborted := True\<rparr>"

definition ctx_Set :: "string \<Rightarrow> string \<Rightarrow> Context \<Rightarrow> Context" where
  "ctx_Set k v c = c\<lparr>Keys := (Keys c)(k \<mapsto> v)\<rparr>"

text \<open>
  The outcome of \<open>jwt.ParseWithClaims(tokenStr, claims, keyFunc)\<close> with the fixed key:
  an error, or a token with its \<open>Valid\<close> flag and the \<open>Username\<close> it left in \<open>claims\<close>.
  The library is outside the repository, so the parser is a parameter of the middleware.
\<close>

datatype parsed = ParseError | Token bool string

text \<open>
  \<open>Next\<close> stands for the rest of the handler chain, which \<open>c.Next()\<close> runs; after
  \<open>c.Abort()\<close> the chain is not continued.
\<close>

definition authMiddleware ::
  "(string \<Rightarrow> parsed) \<Rightarrow> (Context \<Rightarrow> Context) \<Rightarrow> Context \<Rightarrow> Context" where
  "authMiddleware ParseWithClaims Next c =
     (let authHeader = GetHeader c ''Authorization'' in
      if authHeader = [] \<or> length authHeader \<le> 7 \<or> take 7 authHeader \<noteq> ''Bearer '' then
        ctx_Abort (ctx_JSON StatusUnauthorized
          (H ''error'' ''Authorization header missing or invalid'') c)
      else
        (let tokenStr = drop 7 authHeader in
         case ParseWithClaims tokenStr of
           ParseError \<Rightarrow>
             ctx_Abort (ctx_JSON StatusUnauthorized (H ''error'' ''Invalid token'') c)
         | Token valid user \<Rightarrow>
             if \<not> valid then
               ctx_Abort (ctx_JSON StatusUnauthorized (H ''error'' ''Invalid token'') c)
             else Next (ctx_Set ''username'' user c)))"

subsection \<open>joinRoomHandler\<close>

text \<open>
  The handler's local state once the connection is upgraded: the \<open>username\<close> and
  \<open>roomID\<close> it read from the context, the frames that \<open>conn.WriteMessage\<close> has written
  to the peer of its own connection, and whether the loop has been left (the deferred
  \<open>conn.Close()\<close> then closes the connection). Log output is not modelled.
\<close>

record session =
  username :: string
  roomID :: string
  written :: "string list"
  closed :: bool

text \<open>
  What the connection does in one iteration of the loop: \<open>conn.ReadMessage()\<close> returns
  an error, or it returns a message, and the \<open>conn.WriteMessage\<close> that follows succeeds
  (\<open>True\<close>) or returns an error (\<open>False\<close>).
\<close>

datatype frame_io = ReadError | Message string bool

text \<open>\<open>fmt.Sprintf("%s: %s", username, msg)\<close>\<close>

definition Sprintf :: "string \<Rightarrow> string \<Rightarrow> string" where
  "Sprintf u msg = u @ '': '' @ msg"

text \<open>One iteration of the \<open>for\<close> loop; \<open>closed\<close> is set where the source breaks.\<close>

fun loop_iteration :: "session \<Rightarrow> frame_io \<Rightarrow> session" where
  "loop_iteration s ReadError = s\<lparr>closed := True\<rparr>"
| "loop_iteration s (Message msg ok) =
     (if ok then s\<lparr>written := written s @ [Sprintf (username s) msg]\<rparr>
      else s\<lparr>closed := True\<rparr>)"

text \<open>
  The loop over what the connection will do. When the list is used up the handler is
  blocked in \<open>conn.ReadMessage()\<close> and the session is still open.
\<close>

fun echo_loop :: "session \<Rightarrow> frame_io list \<Rightarrow> session" where
  "echo_loop s [] = s"
| "echo_loop s (e # es) =
     (let s' = loop_iteration s e in if closed s' then s' else echo_loop s' es)"

text \<open>
  The outcome of \<open>upgrader.Upgrade\<close>, a call into the websocket library and so a
  parameter of the handler: the connection, or an error. Before it returns an error
  the upgrader answers the request itself with an HTTP error status where it still
  can; \<open>UpgradeError\<close> carries that status, or \<open>None\<close> when nothing was written. The
  handler then only logs and returns.
\<close>

datatype upgrade = Upgraded | UpgradeError "nat option"

text \<open>
  What the client gets from the handler: a response that the handler writes, the
  answer of the failed upgrade (its status, if one was written), or the session on the
  upgraded connection.
\<close>

datatype join_outcome = Responded response | UpgradeFailed "nat option" | Served session

text \<open>
  The handler reads and writes none of the package-level variables; they are passed
  through to make that explicit.
\<close>

definition joinRoomHandler ::
  "upgrade \<Rightarrow> frame_io list \<Rightarrow> Context \<Rightarrow> globals \<Rightarrow> join_outcome \<times> globals" where
  "joinRoomHandler upgraded script c g =
     (let room = Param c ''roomID'' in
      case Keys c ''username'' of
        None \<Rightarrow>
          (Responded (JSON StatusUnauthorized (H ''error'' ''User not authenticated'')), g)
      | Some user \<Rightarrow>
          (case upgraded of
             UpgradeError answered \<Rightarrow> (UpgradeFailed answered, g)
           | Upgraded \<Rightarrow>
               (Served (echo_loop
                  \<lparr>username = user, roomID = room, written = [], closed = False\<rparr> script), g)))"

subsection \<open>Several connections at once\<close>

text \<open>
  Every request runs \<open>joinRoomHandler\<close> on its own connection, and the handlers share no
  variable, so a run of the server is an interleaving of loop iterations: the event
  \<open>(cid, io)\<close> is one iteration of the handler that serves connection \<open>cid\<close>. A handler
  that has left its loop takes no further step.
\<close>

type_synonym connections = "nat \<Rightarrow> session option"

definition handler_step :: "connections \<Rightarrow> nat \<times> frame_io \<Rightarrow> connections" where
  "handler_step cs ev =
     (case cs (fst ev) of
        None \<Rightarrow> cs
      | Some s \<Rightarrow> if closed s then cs else cs(fst ev \<mapsto> loop_iteration s (snd ev)))"

definition run_handlers :: "connections \<Rightarrow> (nat \<times> frame_io) list \<Rightarrow> connections" where
  "run_handlers cs evs = foldl handler_step cs evs"

text \<open>The iterations of one connection within an interleaving, in order.\<close>

definition on_conn :: "nat \<Rightarrow> (nat \<times> frame_io) list \<Rightarrow> frame_io list" where
  "on_conn r evs = map snd (filter (\<lambda>ev. fst ev = r) evs)"

text \<open>
  The messages of the iterations before the first one that leaves the loop: those are
  the messages that were read and written back.
\<close>

fun echoed :: "frame_io list \<Rightarrow> string list" where
  "echoed [] = []"
| "echoed (ReadError # es) = []"
| "echoed (Message msg ok # es) = (if ok then msg # echoed es else [])"

text \<open>
  The specification's reading of "online in a room", for comparison with
  \<open>getClientsHandler\<close>: the users of the open sessions bound to that room.
\<close>

definition spec_ListByRoom :: "session list \<Rightarrow> string \<Rightarrow> string set" where
  "spec_ListByRoom ss r = set (map username (filter (\<lambda>s. roomID s = r \<and> \<not> closed s) ss))"

section \<open>The state store (internal/chat/repository/staterepo/staterepo.go)\<close>

text \<open>
  \<open>stateStore\<close> holds one map from user ids to \<open>models.State\<close>. The declaration of
  \<open>models.State\<close> is not among the sources, so the record type is a parameter.
\<close>

record 'st stateStore =
  states :: "int \<rightharpoonup> 'st"

definition NewStateDB :: "'st stateStore" where
  "NewStateDB = \<lparr>states = Map.empty\<rparr>"

text \<open>Modelled from the spec: the error taxonomy of section 7; no source file declares
  these errors.
\<close>

datatype hub_error = AuthenticationFailed | RoomNotFound | ConnectionClosed | SlowConsumerDropped

text \<open>Modelled from the spec: the presence store's \<open>Get\<close> of section 4.4, which no source file
  defines (staterepo.go has the constructor only). "Returns current record or a
  default never-seen value; never fails." The default value is the parameter
  \<open>never_seen\<close>.
\<close>

definition Get :: "'st \<Rightarrow> 'st stateStore \<Rightarrow> int \<Rightarrow> hub_error + 'st" where
  "Get never_seen st userID =
     (case states st userID of
        Some rec \<Rightarrow> Inr rec
      | None \<Rightarrow> Inr never_seen)"

section \<open>The bounded outbound queue of a connection\<close>

text \<open>Modelled from the spec: the Connection of section 4.1 with its outbound queue, which
  no source file defines (\<open>joinRoomHandler\<close> writes to the socket directly). The queue
  holds the oldest message first; \<open>warnings\<close> counts the recorded slow-consumer
  warnings and \<open>warned\<close> says whether one was recorded in the current window. The spec
  does not say what ends a window; \<open>new_window\<close> is that event.
\<close>

record 'm Connection =
  queue :: "'m list"
  conn_closed :: bool
  warnings :: nat
  warned :: bool

text \<open>Modelled from the spec: "fixed capacity, e.g. 64 messages" of section 4.1.\<close>

definition queue_capacity :: nat where
  "queue_capacity = 64"

text \<open>Modelled from the spec: a connection as it is created at a successful join.\<close>

definition new_Connection :: "'m Connection" where
  "new_Connection = \<lparr>queue = [], conn_closed = False, warnings = 0, warned = False\<rparr>"

text \<open>Modelled from the spec: the start of a new warning window.\<close>

definition new_window :: "'m Connection \<Rightarrow> 'm Connection" where
  "new_window c = c\<lparr>warned := False\<rparr>"

text \<open>Modelled from the spec: \<open>Send\<close> of section 4.1. "Fails with ConnectionClosed if
  already closed"; on a full queue "the oldest queued message is discarded, a single
  slow consumer warning is recorded once per window, and the new message is enqueued".
\<close>

definition Send :: "'m \<Rightarrow> 'm Connection \<Rightarrow> hub_error + 'm Connection" where
  "Send m c =
     (if conn_closed c then Inl ConnectionClosed
      else if queue_capacity \<le> length (queue c) then
        Inr (c\<lparr>queue := tl (queue c) @ [m],
               warnings := (if warned c then warnings c else warnings c + 1),
               warned := True\<rparr>)
      else Inr (c\<lparr>queue := queue c @ [m]\<rparr>))"

text \<open>Modelled from the spec: enqueuing a sequence of messages with no drain between.\<close>

fun send_all :: "'m list \<Rightarrow> 'm Connection \<Rightarrow> hub_error + 'm Connection" where
  "send_all [] c = Inr c"
| "send_all (m # ms) c =
     (case Send m c of Inl e \<Rightarrow> Inl e | Inr c' \<Rightarrow> send_all ms c')"

section \<open>Scenario data\<close>

text \<open>
  Concrete inputs for the scenarios: two open sessions \<open>A\<close> and \<open>B\<close> of the room "1" on
  the connections 0 and 1, the context of a join request as \<open>authMiddleware\<close> leaves it
  (the path parameter \<open>roomID\<close> and the key \<open>username\<close>), the context of a request with
  a given Authorization header, and a token parser that accepts the one token "good",
  of the user alice.
\<close>

definition member_A :: session where
  "member_A = \<lparr>username = ''A'', roomID = ''1'', written = [], closed = False\<rparr>"

definition member_B :: session where
  "member_B = \<lparr>username = ''B'', roomID = ''1'', written = [], closed = False\<rparr>"

definition two_members :: connections where
  "two_members = [0 \<mapsto> member_A, 1 \<mapsto> member_B]"

definition join_request :: "string \<Rightarrow> string \<Rightarrow> Context" where
  "join_request user room =
     \<lparr>Headers = (\<lambda>k. []), Params = (\<lambda>k. if k = ''roomID'' then room else []),
      Keys = [''username'' \<mapsto> user], Written = [], Aborted = False\<rparr>"

definition bearer_request :: "string \<Rightarrow> Context" where
  "bearer_request h =
     \<lparr>Headers = (\<lambda>k. if k = ''Authorization'' then h else []), Params = (\<lambda>k. []),
      Keys = Map.empty, Written = [], Aborted = False\<rparr>"

definition only_good_token :: "string \<Rightarrow> parsed" where
  "only_good_token t = (if t = ''good'' then Token True ''alice'' else ParseError)"

section \<open>Theorems\<close>

lemma status_JSON [simp]: "status (JSON st v) = st"
  by (simp add: JSON_def)

lemma body_JSON [simp]: "body (JSON st v) = v"
  by (simp add: JSON_def)

lemma User_ID_update_neq: "x \<noteq> y \<Longrightarrow> u\<lparr>User_ID := x\<rparr> \<noteq> u\<lparr>User_ID := y\<rparr>"
proof
  assume neq: "x \<noteq> y" and eq: "u\<lparr>User_ID := x\<rparr> = u\<lparr>User_ID := y\<rparr>"
  from eq have "User_ID (u\<lparr>User_ID := x\<rparr>) = User_ID (u\<lparr>User_ID := y\<rparr>)"
    by (rule arg_cong)
  with neq show False by simp
qed

subsection \<open>Auxiliary facts\<close>

text \<open>In an interleaving every connection runs its own loop on its own iterations.\<close>

lemma handler_step_apply:
  "handler_step cs ev r =
     (if fst ev = r then
        (case cs r of None \<Rightarrow> None
         | Some s \<Rightarrow> if closed s then Some s else Some (loop_iteration s (snd ev)))
      else cs r)"
  by (simp add: handler_step_def split: option.splits)

lemma run_handlers_Nil: "run_handlers cs [] = cs"
  by (simp add: run_handlers_def)

lemma run_handlers_Cons: "run_handlers cs (ev # evs) = run_handlers (handler_step cs ev) evs"
  by (simp add: run_handlers_def)

lemma run_handlers_closed:
  "cs r = Some s \<Longrightarrow> closed s \<Longrightarrow> run_handlers cs evs r = Some s"
proof (induction evs arbitrary: cs)
  case Nil
  then show ?case by (simp add: run_handlers_Nil)
next
  case (Cons ev evs)
  from Cons.prems have "handler_step cs ev r = Some s"
    by (simp add: handler_step_apply)
  with Cons.prems show ?case
    by (simp add: run_handlers_Cons Cons.IH)
qed

lemma run_handlers_echo_loop:
  "cs r = Some s \<Longrightarrow> \<not> closed s \<Longrightarrow>
   run_handlers cs evs r = Some (echo_loop s (on_conn r evs))"
proof (induction evs arbitrary: cs s)
  case Nil
  then show ?case by (simp add: run_handlers_Nil on_conn_def)
next
  case (Cons ev evs)
  show ?case
  proof (cases "fst ev = r")
    case False
    with Cons.prems have "handler_step cs ev r = Some s"
      by (simp add: handler_step_apply)
    then have "run_handlers (handler_step cs ev) evs r = Some (echo_loop s (on_conn r evs))"
      using Cons.prems(2) by (rule Cons.IH)
    with False show ?thesis
      by (simp add: run_handlers_Cons on_conn_def)
  next
    case True
    with Cons.prems have step: "handler_step cs ev r = Some (loop_iteration s (snd ev))"
      by (simp add: handler_step_apply)
    show ?thesis
    proof (cases "closed (loop_iteration s (snd ev))")
      case True
      from step True
      have "run_handlers (handler_step cs ev) evs r = Some (loop_iteration s (snd ev))"
        by (rule run_handlers_closed)
      with \<open>fst ev = r\<close> True show ?thesis
        by (simp add: run_handlers_Cons on_conn_def Let_def)
    next
      case False
      from step False
      have "run_handlers (handler_step cs ev) evs r
              = Some (echo_loop (loop_iteration s (snd ev)) (on_conn r evs))"
        by (rule Cons.IH)
      with \<open>fst ev = r\<close> False show ?thesis
        by (simp add: run_handlers_Cons on_conn_def Let_def)
    qed
  qed
qed

lemma written_echo_loop:
  "\<not> closed s \<Longrightarrow>
   written (echo_loop s script) = written s @ map (Sprintf (username s)) (echoed script)"
proof (induction script arbitrary: s)
  case Nil
  then show ?case by simp
next
  case (Cons e script)
  show ?case
  proof (cases e)
    case ReadError
    then show ?thesis by simp
  next
    case (Message msg ok)
    with Cons show ?thesis by (cases ok) (simp_all add: Let_def)
  qed
qed

text \<open>Go's \<open>h[:n] == p\<close> for a \<open>p\<close> of length \<open>n\<close> says that \<open>p\<close> is a prefix of \<open>h\<close>.\<close>

lemma prefix_take: "prefix p h \<longleftrightarrow> take (length p) h = p"
  by (metis append_take_drop_id prefix_def append_eq_conv_conj)

text \<open>Sending in sequence, and what a new connection holds after any number of sends.\<close>

lemma send_all_append:
  "send_all (xs @ ys) c = (case send_all xs c of Inl e \<Rightarrow> Inl e | Inr c' \<Rightarrow> send_all ys c')"
  by (induction xs arbitrary: c) (simp_all split: sum.splits)

lemma send_all_new_Connection:
  "send_all ms new_Connection
     = Inr \<lparr>queue = drop (length ms - queue_capacity) ms, conn_closed = False,
            warnings = (if queue_capacity < length ms then 1 else 0),
            warned = (queue_capacity < length ms)\<rparr>"
proof (induction ms rule: rev_induct)
  case Nil
  then show ?case by (simp add: new_Connection_def)
next
  case (snoc x xs)
  show ?case
  proof (cases "length xs < queue_capacity")
    case True
    with snoc show ?thesis
      by (simp add: send_all_append Send_def)
  next
    case False
    then have "tl (drop (length xs - queue_capacity) xs) = drop (Suc (length xs) - queue_capacity) xs"
      by (simp add: tl_drop drop_Suc Suc_diff_le)
    with False snoc show ?thesis
      by (simp add: send_all_append Send_def queue_capacity_def)
  qed
qed


subsection \<open>Signing up\<close>

text \<open>
  Claim C8, as the code has it. For a request whose JSON body binds to a user
  (\<open>c.BindJSON\<close> returns no error), \<open>handleSignup\<close> answers with status 200 and the
  user, whose ID is the number of registered users plus one; it appends that user to
  \<open>users\<close> and leaves the other variables alone. No login is compared: signing the
  same user up twice appends two records with the same login that differ (in their
  IDs).
\<close>

theorem handleSignup_appends:
  "status (fst (handleSignup (Some u) g)) = 200
   \<and> body (fst (handleSignup (Some u) g)) = JUser (u\<lparr>User_ID := int (length (users g)) + 1\<rparr>)
   \<and> users (snd (handleSignup (Some u) g))
       = users g @ [u\<lparr>User_ID := int (length (users g)) + 1\<rparr>]
   \<and> rooms (snd (handleSignup (Some u) g)) = rooms g
   \<and> clients (snd (handleSignup (Some u) g)) = clients g
   \<and> status (fst (handleSignup (Some u) (snd (handleSignup (Some u) g)))) = 200
   \<and> users (snd (handleSignup (Some u) (snd (handleSignup (Some u) g))))
       = users g @ [u\<lparr>User_ID := int (length (users g)) + 1\<rparr>,
                    u\<lparr>User_ID := int (length (users g)) + 2\<rparr>]
   \<and> Login (u\<lparr>User_ID := int (length (users g)) + 1\<rparr>)
       = Login (u\<lparr>User_ID := int (length (users g)) + 2\<rparr>)
   \<and> u\<lparr>User_ID := int (length (users g)) + 1\<rparr> \<noteq> u\<lparr>User_ID := int (length (users g)) + 2\<rparr>"
proof -
  have "u\<lparr>User_ID := int (length (users g)) + 1\<rparr> \<noteq> u\<lparr>User_ID := int (length (users g)) + 2\<rparr>"
    by (rule User_ID_update_neq) simp
  then show ?thesis
    by (simp add: handleSignup_def Let_def StatusOK_def)
qed

text \<open>
  Claim C8 as stated fails: not every well-formed JSON body binds. \<open>c.BindJSON\<close>
  returns an error for a well-formed body whose field has the wrong type, such as
  \<open>{"login":5,"password":"pw"}\<close>, and also for a malformed one; the handler then
  answers with status 400, not 200, and registers nobody.
\<close>

theorem handleSignup_unbound_counterexample:
  "status (fst (handleSignup None init_globals)) = 400
   \<and> status (fst (handleSignup None init_globals)) \<noteq> 200
   \<and> body (fst (handleSignup None init_globals)) = H ''error'' ''Invalid input''
   \<and> users (snd (handleSignup None init_globals)) = []
   \<and> snd (handleSignup None init_globals) = init_globals"
  by (simp add: handleSignup_def StatusBadRequest_def init_globals_def)

subsection \<open>Listing the rooms\<close>

text \<open>
  Claim C10. \<open>getRoomsHandler\<close> always answers with status 200 and never with 404: the
  body is the array of rooms when there is a room and a message object when there is
  none, although the documented responses of the endpoint include 404.
\<close>

theorem getRoomsHandler_always_200:
  "status (getRoomsHandler g) = 200
   \<and> status (getRoomsHandler g) \<noteq> 404
   \<and> body (getRoomsHandler g)
       = (if rooms g = [] then H ''message'' no_rooms_message else JRooms (rooms g))
   \<and> 404 \<in> set (map fst getRooms_documented_responses)"
  by (simp add: getRoomsHandler_def StatusOK_def StatusNotFound_def
      getRooms_documented_responses_def)

subsection \<open>Creating a room\<close>

text \<open>
  Claim C4, as the code has it. \<open>createRoomHandler\<close> looks for no existing room: for
  every request whose body binds to a room it answers with status 200 and the
  submitted room and appends that room to \<open>rooms\<close>, so the list grows by one with every
  call and can hold several rooms with one ID.
\<close>

theorem createRoomHandler_appends:
  "status (fst (createRoomHandler (Some room) g)) = 200
   \<and> body (fst (createRoomHandler (Some room) g)) = JRoom room
   \<and> rooms (snd (createRoomHandler (Some room) g)) = rooms g @ [room]
   \<and> length (rooms (snd (createRoomHandler (Some room) g))) = length (rooms g) + 1
   \<and> users (snd (createRoomHandler (Some room) g)) = users g"
  by (simp add: createRoomHandler_def StatusOK_def)

text \<open>
  Claim C4 as stated fails: creating a room with the ID "1" of an initial room leaves
  two rooms with that ID in the list, and the answer is the new room, not the
  existing one.
\<close>

theorem createRoomHandler_duplicate_counterexample:
  "\<not> distinct (map Room_ID (rooms (snd
       (createRoomHandler (Some \<lparr>Room_ID = ''1'', Room_Name = ''again''\<rparr>) init_globals))))
   \<and> length (filter (\<lambda>r. Room_ID r = ''1'') (rooms (snd
       (createRoomHandler (Some \<lparr>Room_ID = ''1'', Room_Name = ''again''\<rparr>) init_globals)))) = 2
   \<and> body (fst (createRoomHandler (Some \<lparr>Room_ID = ''1'', Room_Name = ''again''\<rparr>) init_globals))
       \<noteq> JRoom \<lparr>Room_ID = ''1'', Room_Name = ''room1''\<rparr>"
  by (simp add: createRoomHandler_def init_globals_def)

subsection \<open>Listing the clients of a room\<close>

text \<open>
  Claim C2, as the code has it. For every roomID \<open>getClientsHandler\<close> answers with
  status 200 and the package-level list \<open>clients\<close>; the answer is the same for any two
  roomIDs.
\<close>

theorem getClientsHandler_fixed_list:
  "status (getClientsHandler r g) = 200
   \<and> body (getClientsHandler r g) = JClients (clients g)
   \<and> getClientsHandler r g = getClientsHandler r' g"
  by (simp add: getClientsHandler_def StatusOK_def)

text \<open>
  Claim C2 as stated fails: with the open sessions of \<open>A\<close> and \<open>B\<close> in room "1",
  nobody is online in room "2" and \<open>A\<close> and \<open>B\<close> are online in room "1", yet the
  listing for room "2" is the fixed list of the clients "1" (User1) and "2" (User2),
  and it equals the listing for room "1".
\<close>

theorem getClientsHandler_room_counterexample:
  "body (getClientsHandler ''2'' init_globals) = JClients (clients init_globals)
   \<and> set (map Client_ID (clients init_globals)) = {''1'', ''2''}
   \<and> set (map Client_Name (clients init_globals)) = {''User1'', ''User2''}
   \<and> spec_ListByRoom [member_A, member_B] ''2'' = {}
   \<and> spec_ListByRoom [member_A, member_B] ''1'' = {''A'', ''B''}
   \<and> set (map Client_ID (clients init_globals)) \<noteq> spec_ListByRoom [member_A, member_B] ''2''
   \<and> set (map Client_Name (clients init_globals)) \<noteq> spec_ListByRoom [member_A, member_B] ''2''
   \<and> getClientsHandler ''1'' init_globals = getClientsHandler ''2'' init_globals"
  by (simp add: spec_ListByRoom_def getClientsHandler_def init_globals_def member_A_def
      member_B_def insert_commute)

subsection \<open>The presence store\<close>

text \<open>
  Claim C5. For every user id \<open>Get\<close> succeeds: it returns the user's record if the
  store has one and the never-seen value otherwise, in every state of the store; in
  the store that \<open>NewStateDB\<close> constructs it returns the never-seen value for every user.
\<close>

theorem Get_total:
  "(\<exists>r. Get never_seen st userID = Inr r)
   \<and> Get never_seen st userID
       = Inr (case states st userID of Some r \<Rightarrow> r | None \<Rightarrow> never_seen)
   \<and> Get never_seen NewStateDB userID = Inr never_seen"
  by (simp add: Get_def NewStateDB_def split: option.splits)

subsection \<open>A message sent in a room\<close>

text \<open>
  Claim C1, as the code has it. When the handler of an open connection \<open>a\<close> reads a
  message and its write succeeds, it writes exactly one frame, "username: message",
  to \<open>a\<close> itself, the connection the message came from; every other connection is as
  it was, after this step and after any sequence of iterations of \<open>a\<close>'s handler.
\<close>

theorem joinRoomHandler_echoes_to_sender:
  assumes "cs a = Some s" and "\<not> closed s"
  shows "handler_step cs (a, Message msg True) a
           = Some (s\<lparr>written := written s @ [Sprintf (username s) msg]\<rparr>)
     \<and> (\<forall>b. b \<noteq> a \<longrightarrow> handler_step cs (a, Message msg True) b = cs b)
     \<and> (\<forall>b script. b \<noteq> a \<longrightarrow> run_handlers cs (map (Pair a) script) b = cs b)"
proof -
  have other: "run_handlers cs (map (Pair a) script) b = cs b" if "b \<noteq> a" for b script
  proof (cases "cs b")
    case None
    then show ?thesis
      by (induction script arbitrary: cs)
         (simp_all add: run_handlers_Nil run_handlers_Cons handler_step_apply that)
  next
    case (Some sb)
    have empty: "on_conn b (map (Pair a) script) = []"
      using that by (simp add: on_conn_def filter_empty_conv)
    show ?thesis
    proof (cases "closed sb")
      case True
      with Some show ?thesis by (simp add: run_handlers_closed)
    next
      case False
      with Some show ?thesis by (simp add: run_handlers_echo_loop empty)
    qed
  qed
  from assms other show ?thesis
    by (simp add: handler_step_apply)
qed

text \<open>
  Witness for C1: \<open>B\<close> sends "hello" in the room of \<open>A\<close> and \<open>B\<close>; \<open>B\<close> is written
  "B: hello" and \<open>A\<close> is untouched.
\<close>

theorem joinRoomHandler_echoes_to_sender_witness:
  "two_members 1 = Some member_B \<and> \<not> closed member_B
   \<and> map_option written (handler_step two_members (1, Message ''hello'' True) 1) = Some [''B: hello'']
   \<and> handler_step two_members (1, Message ''hello'' True) 0 = two_members 0
   \<and> run_handlers two_members (map (Pair 1) [Message ''x'' True, ReadError]) 0 = two_members 0"
proof -
  have h1: "two_members 1 = Some member_B" by (simp add: two_members_def)
  have h2: "\<not> closed member_B" by (simp add: member_B_def)
  note t = joinRoomHandler_echoes_to_sender [of two_members 1 member_B "''hello''", OF h1 h2]
  from t have "handler_step two_members (1, Message ''hello'' True) 1
      = Some (member_B\<lparr>written := written member_B @ [Sprintf (username member_B) ''hello'']\<rparr>)"
    by (rule conjunct1)
  then have c1: "map_option written (handler_step two_members (1, Message ''hello'' True) 1)
      = Some [''B: hello'']"
    by (simp add: member_B_def Sprintf_def)
  have c2: "handler_step two_members (1, Message ''hello'' True) 0 = two_members 0"
    using t [THEN conjunct2, THEN conjunct1, rule_format, of 0] by simp
  have c3: "run_handlers two_members (map (Pair 1) [Message ''x'' True, ReadError]) 0 = two_members 0"
    using t [THEN conjunct2, THEN conjunct2, rule_format, of 0 "[Message ''x'' True, ReadError]"]
    by simp
  from h1 h2 c1 c2 c3 show ?thesis by (intro conjI)
qed

text \<open>
  Claim C1 as stated fails: \<open>A\<close> and \<open>B\<close> have joined room "1" and \<open>A\<close> sends "hi".
  \<open>B\<close> receives nothing, where the claim has exactly one message, and \<open>A\<close> receives
  "A: hi", where the claim has none.
\<close>

theorem broadcast_counterexample:
  "fst (joinRoomHandler Upgraded [] (join_request ''A'' ''1'') init_globals) = Served member_A
   \<and> fst (joinRoomHandler Upgraded [] (join_request ''B'' ''1'') init_globals) = Served member_B
   \<and> map_option written (run_handlers two_members [(0, Message ''hi'' True)] 1) = Some []
   \<and> map_option written (run_handlers two_members [(0, Message ''hi'' True)] 0) = Some [''A: hi'']"
  by (simp add: joinRoomHandler_def join_request_def Param_def run_handlers_def
      handler_step_def two_members_def member_A_def member_B_def Sprintf_def)

subsection \<open>Joining a room that is not in the list\<close>

text \<open>
  Claim C3, as the code has it. \<open>joinRoomHandler\<close> never looks at \<open>rooms\<close>: it leaves
  the package-level variables unchanged and its outcome is the same whatever they
  hold. A join that names a roomID is therefore not refused for the roomID: with a
  username in the context and a successful upgrade the connection is served under the
  roomID of the path, whether or not a room has that ID.
\<close>

theorem joinRoomHandler_ignores_rooms:
  "snd (joinRoomHandler upgraded script c g) = g
   \<and> fst (joinRoomHandler upgraded script c g) = fst (joinRoomHandler upgraded script c g')
   \<and> (Keys c ''username'' = Some u \<longrightarrow>
        fst (joinRoomHandler Upgraded script c g)
          = Served (echo_loop \<lparr>username = u, roomID = Param c ''roomID'', written = [],
                               closed = False\<rparr> script))"
  by (cases upgraded) (simp_all add: joinRoomHandler_def Let_def split: option.splits)

text \<open>
  Witness for C3: bob joins "nowhere", which is no room of the initial list, and is
  served; the package-level variables are as before.
\<close>

theorem joinRoomHandler_ignores_rooms_witness:
  "Keys (join_request ''bob'' ''nowhere'') ''username'' = Some ''bob''
   \<and> ''nowhere'' \<notin> set (map Room_ID (rooms init_globals))
   \<and> joinRoomHandler Upgraded [] (join_request ''bob'' ''nowhere'') init_globals
       = (Served \<lparr>username = ''bob'', roomID = ''nowhere'', written = [], closed = False\<rparr>,
          init_globals)"
proof -
  have k: "Keys (join_request ''bob'' ''nowhere'') ''username'' = Some ''bob''"
    by (simp add: join_request_def)
  have r: "''nowhere'' \<notin> set (map Room_ID (rooms init_globals))"
    by (simp add: init_globals_def)
  note t = joinRoomHandler_ignores_rooms [of Upgraded "[]" "join_request ''bob'' ''nowhere''"
      init_globals init_globals "''bob''"]
  from t k have "joinRoomHandler Upgraded [] (join_request ''bob'' ''nowhere'') init_globals
       = (Served \<lparr>username = ''bob'', roomID = ''nowhere'', written = [], closed = False\<rparr>,
          init_globals)"
    by (simp add: prod_eq_iff join_request_def Param_def)
  with k r show ?thesis by (intro conjI)
qed

text \<open>
  Claim C3 as stated fails: "unknown-42" is no room of the initial list, yet alice's
  join is not rejected; the connection is served and her message "hi" is answered.
\<close>

theorem join_unknown_room_counterexample:
  "''unknown-42'' \<notin> set (map Room_ID (rooms init_globals))
   \<and> joinRoomHandler Upgraded [Message ''hi'' True] (join_request ''alice'' ''unknown-42'')
         init_globals
       = (Served \<lparr>username = ''alice'', roomID = ''unknown-42'', written = [''alice: hi''],
                  closed = False\<rparr>, init_globals)"
  by (simp add: joinRoomHandler_def join_request_def init_globals_def Param_def Sprintf_def Let_def)

subsection \<open>Order of delivery\<close>

text \<open>
  Claim C6. In every interleaving of the handlers, the frames that an open
  connection \<open>r\<close> receives are the frames for the messages read on \<open>r\<close> up to the first
  failure, in the order in which they were read: of two messages of one sender the
  earlier one is observed at the earlier position (the \<open>i\<close>-th message at position
  \<open>i\<close>, the \<open>j\<close>-th at position \<open>j\<close>). Messages of other senders never reach \<open>r\<close>, so
  nothing is said about their order.
\<close>

theorem per_sender_fifo:
  assumes "cs r = Some s" and "\<not> closed s"
  shows "\<exists>s'. run_handlers cs evs r = Some s'
     \<and> written s' = written s @ map (Sprintf (username s)) (echoed (on_conn r evs))
     \<and> (\<forall>i j. i < j \<and> j < length (echoed (on_conn r evs)) \<longrightarrow>
          written s' ! (length (written s) + i) = Sprintf (username s) (echoed (on_conn r evs) ! i)
          \<and> written s' ! (length (written s) + j) = Sprintf (username s) (echoed (on_conn r evs) ! j))"
proof -
  let ?s' = "echo_loop s (on_conn r evs)"
  from assms have run: "run_handlers cs evs r = Some ?s'"
    by (rule run_handlers_echo_loop)
  from assms(2) have w: "written ?s' = written s @ map (Sprintf (username s)) (echoed (on_conn r evs))"
    by (rule written_echo_loop)
  have "written ?s' ! (length (written s) + i) = Sprintf (username s) (echoed (on_conn r evs) ! i)"
    if "i < length (echoed (on_conn r evs))" for i
    using that by (simp add: w nth_append)
  with run w show ?thesis by simp
qed

text \<open>
  Witness for C6: \<open>A\<close> sends "m1" and then "m2", with a message of \<open>B\<close> between
  them; \<open>A\<close>'s connection observes "A: m1" before "A: m2".
\<close>

theorem per_sender_fifo_witness:
  "two_members 0 = Some member_A \<and> \<not> closed member_A
   \<and> map_option written (run_handlers two_members
        [(0, Message ''m1'' True), (1, Message ''x'' True), (0, Message ''m2'' True)] 0)
       = Some [''A: m1'', ''A: m2'']"
proof -
  let ?evs = "[(0, Message ''m1'' True), (1, Message ''x'' True), (0::nat, Message ''m2'' True)]"
  have h1: "two_members 0 = Some member_A" by (simp add: two_members_def)
  have h2: "\<not> closed member_A" by (simp add: member_A_def)
  from per_sender_fifo [of two_members 0 member_A ?evs, OF h1 h2] obtain s'
    where r: "run_handlers two_members ?evs 0 = Some s'"
      and w: "written s'
        = written member_A @ map (Sprintf (username member_A)) (echoed (on_conn 0 ?evs))"
    by blast
  from w have "written s' = [''A: m1'', ''A: m2'']"
    by (simp add: member_A_def on_conn_def Sprintf_def)
  with r have "map_option written (run_handlers two_members ?evs 0) = Some [''A: m1'', ''A: m2'']"
    by simp
  with h1 h2 show ?thesis by (intro conjI)
qed

subsection \<open>The guard of the protected routes\<close>

text \<open>
  Claim C9. If the Authorization header is absent (empty), has at most 7 bytes, does
  not start with "Bearer ", or the token behind the prefix is not parsed as a valid
  token, \<open>authMiddleware\<close> writes one response with status 401, sets the abort flag
  and does not run the rest of the chain (the result does not depend on \<open>Next\<close>).
  Otherwise the rest of the chain runs on the context in which the key "username"
  holds the username of the token's claims.
\<close>

theorem authMiddleware_guard:
  "if GetHeader c ''Authorization'' = []
      \<or> length (GetHeader c ''Authorization'') \<le> 7
      \<or> \<not> prefix ''Bearer '' (GetHeader c ''Authorization'')
      \<or> (\<forall>u. P (drop 7 (GetHeader c ''Authorization'')) \<noteq> Token True u)
   then (\<exists>msg. authMiddleware P Next c
           = c\<lparr>Written := Written c @ [JSON 401 (H ''error'' msg)],
               Aborted := True\<rparr>)
   else (\<exists>u. P (drop 7 (GetHeader c ''Authorization'')) = Token True u
           \<and> authMiddleware P Next c = Next (c\<lparr>Keys := (Keys c)(''username'' \<mapsto> u)\<rparr>))"
proof -
  have len: "length ''Bearer '' = 7" by simp
  have pt: "prefix ''Bearer '' h \<longleftrightarrow> take 7 h = ''Bearer ''" for h
    unfolding prefix_take len ..
  show ?thesis
    by (cases "P (drop 7 (GetHeader c ''Authorization''))")
       (auto simp add: authMiddleware_def Let_def pt ctx_Abort_def ctx_JSON_def ctx_Set_def
          StatusUnauthorized_def)
qed

text \<open>
  Witness for C9: the header "Bearer good" is let through with the username alice
  in the context; the header "Bearer " (7 bytes) is answered with 401 and aborted, as
  are a bad token and a prefix in lower case.
\<close>

theorem authMiddleware_guard_witness:
  "Keys (authMiddleware only_good_token id (bearer_request ''Bearer good'')) ''username'' = Some ''alice''
   \<and> \<not> Aborted (authMiddleware only_good_token id (bearer_request ''Bearer good''))
   \<and> Written (authMiddleware only_good_token id (bearer_request ''Bearer good'')) = []
   \<and> Aborted (authMiddleware only_good_token id (bearer_request ''Bearer ''))
   \<and> map status (Written (authMiddleware only_good_token id (bearer_request ''Bearer ''))) = [401]
   \<and> Aborted (authMiddleware only_good_token id (bearer_request ''Bearer bad''))
   \<and> Aborted (authMiddleware only_good_token id (bearer_request ''bearer good''))"
  using authMiddleware_guard [of "bearer_request ''Bearer good''" only_good_token id]
    authMiddleware_guard [of "bearer_request ''Bearer ''" only_good_token id]
  by (simp add: authMiddleware_def bearer_request_def only_good_token_def GetHeader_def
      ctx_Abort_def ctx_JSON_def ctx_Set_def StatusUnauthorized_def Let_def)

subsection \<open>The bounded queue\<close>

text \<open>
  Claim C7. On an open connection whose queue is full, \<open>Send\<close> drops the oldest
  message, enqueues the new one at the end and records a warning unless one was
  recorded in this window; in a new window it records one. The capacity is 64. After any number of sends to a new
  connection the queue holds the last 64 messages and at most one warning is
  recorded; after 65 sends it holds the messages 2 to 65 and one warning.
\<close>

theorem Send_drop_oldest:
  "(\<not> conn_closed c \<and> queue_capacity \<le> length (queue c) \<longrightarrow>
      Send m c = Inr (c\<lparr>queue := tl (queue c) @ [m],
                        warnings := (if warned c then warnings c else warnings c + 1),
                        warned := True\<rparr>)
      \<and> Send m (new_window c)
          = Inr (c\<lparr>queue := tl (queue c) @ [m], warnings := warnings c + 1, warned := True\<rparr>))
   \<and> queue_capacity = 64
   \<and> send_all ms new_Connection
       = Inr \<lparr>queue = drop (length ms - queue_capacity) ms, conn_closed = False,
              warnings = (if queue_capacity < length ms then 1 else 0),
              warned = (queue_capacity < length ms)\<rparr>
   \<and> (length ms = 65 \<longrightarrow>
        send_all ms new_Connection
          = Inr \<lparr>queue = tl ms, conn_closed = False, warnings = 1, warned = True\<rparr>)"
proof -
  have "drop (length ms - queue_capacity) ms = tl ms" if "length ms = 65"
    using that by (simp add: queue_capacity_def drop_Suc)
  then show ?thesis
    by (simp add: send_all_new_Connection) (simp add: Send_def new_window_def queue_capacity_def)
qed

text \<open>
  Witness for C7: the messages 1 to 65 are sent to a new connection; the queue then
  holds 2 to 65 and one warning is recorded. A send to a connection that holds 64
  messages drops the first of them and records the warning of the window.
\<close>

theorem Send_drop_oldest_witness:
  "length [1..<66::nat] = 65
   \<and> send_all [1..<66::nat] new_Connection
       = Inr \<lparr>queue = [2..<66], conn_closed = False, warnings = 1, warned = True\<rparr>
   \<and> \<not> conn_closed \<lparr>queue = replicate 64 (0::nat), conn_closed = False, warnings = 0,
         warned = False\<rparr>
   \<and> queue_capacity \<le> length (queue \<lparr>queue = replicate 64 (0::nat), conn_closed = False,
         warnings = 0, warned = False\<rparr>)
   \<and> Send 1 \<lparr>queue = replicate 64 (0::nat), conn_closed = False, warnings = 0, warned = False\<rparr>
       = Inr \<lparr>queue = replicate 63 0 @ [1], conn_closed = False, warnings = 1, warned = True\<rparr>"
proof -
  let ?c = "\<lparr>queue = replicate 64 (0::nat), conn_closed = False, warnings = 0, warned = False\<rparr>"
  have l: "length [1..<66::nat] = 65" by simp
  have t: "tl [1..<66::nat] = [2..<66]"
    by (simp add: upt_conv_Cons)
  have o: "\<not> conn_closed ?c" by simp
  have f: "queue_capacity \<le> length (queue ?c)" by (simp add: queue_capacity_def)
  note sd = Send_drop_oldest [of ?c "1::nat" "[1..<66]"]
  from sd l
  have "send_all [1..<66::nat] new_Connection
          = Inr \<lparr>queue = tl [1..<66], conn_closed = False, warnings = 1, warned = True\<rparr>"
    by blast
  then have a: "send_all [1..<66::nat] new_Connection
          = Inr \<lparr>queue = [2..<66], conn_closed = False, warnings = 1, warned = True\<rparr>"
    unfolding t .
  from sd o f
  have "Send 1 ?c = Inr (?c\<lparr>queue := tl (queue ?c) @ [1],
            warnings := (if warned ?c then warnings ?c else warnings ?c + 1), warned := True\<rparr>)"
    by blast
  then have b: "Send 1 ?c
      = Inr \<lparr>queue = replicate 63 0 @ [1], conn_closed = False, warnings = 1, warned = True\<rparr>"
    by simp
  from l a o f b show ?thesis by (intro conjI)
qed

end
